theory Spec2Isabelle
  imports Complex_Main
begin

section \<open>JavaScript numbers\<close>

text \<open>
  Every number of \<^verbatim>\<open>app.js\<close> is an IEEE 754 binary64 value.  A finite value is
  represented by the rational it denotes; the two zeros are identified (the program
  never divides by a computed zero, the only place where they differ observably).
  \<open>NaN\<close> and the two infinities are values of their own: \<^verbatim>\<open>Number(undefined)\<close> and
  \<^verbatim>\<open>Number('abc')\<close> are \<open>NaN\<close>.
\<close>

datatype jsnum = NaN | PInf | NInf | Fin rat

text \<open>Number of binary digits of a natural number.\<close>

fun bitlen :: "nat \<Rightarrow> nat" where
  "bitlen n = (if n = 0 then 0 else Suc (bitlen (n div 2)))"

declare bitlen.simps [simp del]

text \<open>\<open>ilog2 a\<close> is \<open>\<lfloor>log\<^sub>2 a\<rfloor>\<close> for a positive rational \<open>a\<close>.\<close>

definition ilog2 :: "rat \<Rightarrow> int" where
  "ilog2 a = (if 1 \<le> a then int (bitlen (nat \<lfloor>a\<rfloor>)) - 1
              else - int (bitlen (nat (\<lceil>1 / a\<rceil> - 1))))"

definition pow2 :: "int \<Rightarrow> rat" where
  "pow2 k = (if 0 \<le> k then 2 ^ nat k else 1 / 2 ^ nat (- k))"

text \<open>Rounding a non-negative rational to an integer, ties to the even neighbour.\<close>

definition round_half_even :: "rat \<Rightarrow> int" where
  "round_half_even m =
     (let f = \<lfloor>m\<rfloor>; r = m - of_int f
      in if r < 1 / 2 then f
         else if 1 / 2 < r then f + 1
         else if even f then f else f + 1)"

text \<open>
  \<open>fround q\<close> is the binary64 value nearest to the exact result \<open>q\<close> (round to nearest,
  ties to even): 53 significant bits, the exponent of the last place bounded below by
  \<open>-1074\<close> (subnormal numbers), overflow to an infinity above the largest finite value.
\<close>

definition fround :: "rat \<Rightarrow> jsnum" where
  "fround q =
     (if q = 0 then Fin 0
      else
        let a = \<bar>q\<bar>;
            e = ilog2 a;
            qe = max e (- 1022) - 52;
            n = round_half_even (a / pow2 qe);
            e' = (if 2 ^ 53 \<le> n then e + 1 else e)
        in if 1023 < e' then (if 0 < q then PInf else NInf)
           else Fin (sgn q * of_int n * pow2 qe))"

fun jneg :: "jsnum \<Rightarrow> jsnum" where
  "jneg NaN = NaN"
| "jneg PInf = NInf"
| "jneg NInf = PInf"
| "jneg (Fin a) = Fin (- a)"

text \<open>The operator \<^verbatim>\<open>+\<close> on numbers.\<close>

fun jadd :: "jsnum \<Rightarrow> jsnum \<Rightarrow> jsnum" where
  "jadd NaN y = NaN"
| "jadd x NaN = NaN"
| "jadd (Fin a) (Fin b) = fround (a + b)"
| "jadd PInf NInf = NaN"
| "jadd NInf PInf = NaN"
| "jadd PInf y = PInf"
| "jadd NInf y = NInf"
| "jadd (Fin a) y = y"

text \<open>The operator \<^verbatim>\<open>-\<close>.\<close>

definition jsub :: "jsnum \<Rightarrow> jsnum \<Rightarrow> jsnum" where
  "jsub x y = jadd x (jneg y)"

text \<open>An infinity with the sign of a finite factor; \<open>NaN\<close> when that factor is zero.\<close>

definition inf_signed :: "bool \<Rightarrow> rat \<Rightarrow> jsnum" where
  "inf_signed pos b =
     (if b = 0 then NaN else if (0 < b) = pos then PInf else NInf)"

text \<open>The operator \<^verbatim>\<open>*\<close>.\<close>

fun jmul :: "jsnum \<Rightarrow> jsnum \<Rightarrow> jsnum" where
  "jmul NaN y = NaN"
| "jmul x NaN = NaN"
| "jmul (Fin a) (Fin b) = fround (a * b)"
| "jmul PInf (Fin b) = inf_signed True b"
| "jmul NInf (Fin b) = inf_signed False b"
| "jmul (Fin a) PInf = inf_signed True a"
| "jmul (Fin a) NInf = inf_signed False a"
| "jmul PInf PInf = PInf"
| "jmul NInf NInf = PInf"
| "jmul PInf NInf = NInf"
| "jmul NInf PInf = NInf"

text \<open>
  The operator \<^verbatim>\<open>/\<close>.  A zero divisor is read as \<open>+0\<close>; the program only divides by the
  literal \<open>100\<close>.
\<close>

fun jdiv :: "jsnum \<Rightarrow> jsnum \<Rightarrow> jsnum" where
  "jdiv NaN y = NaN"
| "jdiv x NaN = NaN"
| "jdiv (Fin a) (Fin b) =
     (if b = 0 then (if a = 0 then NaN else if 0 < a then PInf else NInf)
      else fround (a / b))"
| "jdiv (Fin a) y = Fin 0"
| "jdiv PInf (Fin b) = (if 0 \<le> b then PInf else NInf)"
| "jdiv NInf (Fin b) = (if 0 \<le> b then NInf else PInf)"
| "jdiv x y = NaN"

text \<open>The comparison \<^verbatim>\<open><\<close>: false as soon as one side is \<open>NaN\<close>.\<close>

fun jless :: "jsnum \<Rightarrow> jsnum \<Rightarrow> bool" where
  "jless NaN y = False"
| "jless x NaN = False"
| "jless (Fin a) (Fin b) = (a < b)"
| "jless x NInf = False"
| "jless NInf y = True"
| "jless PInf y = False"
| "jless (Fin a) PInf = True"

text \<open>\<^verbatim>\<open>x <= y\<close>.\<close>

definition jle :: "jsnum \<Rightarrow> jsnum \<Rightarrow> bool" where
  "jle x y = (x \<noteq> NaN \<and> y \<noteq> NaN \<and> (jless x y \<or> x = y))"

text \<open>\<^verbatim>\<open>Math.max\<close> and \<^verbatim>\<open>Math.min\<close> of two numbers: \<open>NaN\<close> if either is \<open>NaN\<close>.\<close>

definition Math_max :: "jsnum \<Rightarrow> jsnum \<Rightarrow> jsnum" where
  "Math_max x y = (if x = NaN \<or> y = NaN then NaN else if jless x y then y else x)"

definition Math_min :: "jsnum \<Rightarrow> jsnum \<Rightarrow> jsnum" where
  "Math_min x y = (if x = NaN \<or> y = NaN then NaN else if jless y x then y else x)"

text \<open>Truthiness of a number, as \<^verbatim>\<open>||\<close> tests it: \<open>0\<close> and \<open>NaN\<close> are falsy.\<close>

definition truthy :: "jsnum \<Rightarrow> bool" where
  "truthy x = (x \<noteq> NaN \<and> x \<noteq> Fin 0)"

text \<open>
  \<^verbatim>\<open>+x.toFixed(2)\<close>.  \<^verbatim>\<open>toFixed(2)\<close> prints the integer \<open>n\<close> for which \<open>n / 100\<close> is
  closest to the exact value of \<open>\<bar>x\<bar>\<close> (the larger \<open>n\<close> on a tie) with two decimals and
  the sign of \<open>x\<close>; from \<open>10\<^sup>2\<^sup>1\<close> on, and for \<open>NaN\<close> and the infinities, it prints the
  number as \<^verbatim>\<open>String\<close> does.  The unary \<^verbatim>\<open>+\<close> reads the string back as the nearest
  binary64 value.  The specification calls the composition \<open>round2\<close>.
\<close>

definition round2 :: "jsnum \<Rightarrow> jsnum" where
  "round2 x =
     (case x of
        Fin a \<Rightarrow>
          if 10 ^ 21 \<le> \<bar>a\<bar> then Fin a
          else fround (sgn a * of_int \<lfloor>\<bar>a\<bar> * 100 + 1 / 2\<rfloor> / 100)
      | _ \<Rightarrow> x)"

text \<open>A decimal literal of the source text denotes the nearest binary64 value.\<close>

definition lit :: "rat \<Rightarrow> jsnum" where
  "lit q = fround q"


text \<open>
  An argument of a call: \<open>None\<close> is an omitted argument (\<^verbatim>\<open>undefined\<close>), \<open>Some x\<close> a value
  that \<^verbatim>\<open>Number\<close> converts to \<open>x\<close>.  \<^verbatim>\<open>Number(undefined)\<close> is \<open>NaN\<close>; a default
  parameter value replaces \<^verbatim>\<open>undefined\<close> only.
\<close>

type_synonym arg = "jsnum option"

definition Number_js :: "arg \<Rightarrow> jsnum" where
  "Number_js v = (case v of None \<Rightarrow> NaN | Some x \<Rightarrow> x)"

definition default_arg :: "jsnum \<Rightarrow> arg \<Rightarrow> arg" where
  "default_arg d v = (case v of None \<Rightarrow> Some d | Some x \<Rightarrow> Some x)"

section \<open>Catalog, products and the factory\<close>

record catalog_entry =
  pid :: string
  name :: string
  basePrice :: jsnum
  prescriptionRequired :: bool

definition CATALOG :: "catalog_entry list" where
  "CATALOG =
     [\<lparr>pid = ''amox500'', name = ''Amoxicillin 500mg (20 caps)'',
        basePrice = lit (2499 / 100), prescriptionRequired = True\<rparr>,
      \<lparr>pid = ''ator20'', name = ''Atorvastatin 20mg (30 tabs)'',
        basePrice = lit (345 / 10), prescriptionRequired = True\<rparr>,
      \<lparr>pid = ''met500'', name = ''Metformin 500mg (60 tabs)'',
        basePrice = lit (1825 / 100), prescriptionRequired = True\<rparr>,
      \<lparr>pid = ''omep20'', name = ''Omeprazole 20mg (14 caps)'',
        basePrice = lit (995 / 100), prescriptionRequired = False\<rparr>]"

text \<open>
  An object of class \<^verbatim>\<open>Product\<close> or of one of its decorator subclasses.  A decorator
  keeps its wrappee and its clamped percentage; the four fields it inherits are copied
  from the wrappee by \<^verbatim>\<open>super(wrappee)\<close>.
\<close>

datatype product =
    Product catalog_entry
  | DiscountDecorator product jsnum
  | InsuranceDecorator product jsnum

fun product_fields :: "product \<Rightarrow> catalog_entry" where
  "product_fields (Product f) = f"
| "product_fields (DiscountDecorator wrappee percent) = product_fields wrappee"
| "product_fields (InsuranceDecorator wrappee coveragePercent) = product_fields wrappee"

text \<open>The constructors.  \<^verbatim>\<open>Number\<close> and \<^verbatim>\<open>Boolean\<close> leave a number and a boolean as they are.\<close>

definition new_Product :: "catalog_entry \<Rightarrow> product" where
  "new_Product e = Product e"

definition new_DiscountDecorator :: "product \<Rightarrow> arg \<Rightarrow> product" where
  "new_DiscountDecorator wrappee percent =
     DiscountDecorator wrappee (Math_max (Fin 0) (Math_min (Fin 100) (Number_js percent)))"

definition new_InsuranceDecorator :: "product \<Rightarrow> arg \<Rightarrow> product" where
  "new_InsuranceDecorator wrappee coveragePercent =
     InsuranceDecorator wrappee
       (Math_max (Fin 0) (Math_min (Fin 100) (Number_js (default_arg (Fin 30) coveragePercent))))"

fun getPrice :: "product \<Rightarrow> jsnum" where
  "getPrice (Product f) = basePrice f"
| "getPrice (DiscountDecorator wrappee percent) =
     (let p = getPrice wrappee
      in round2 (jmul p (jsub (Fin 1) (jdiv percent (Fin 100)))))"
| "getPrice (InsuranceDecorator wrappee coveragePercent) =
     (let p = getPrice wrappee
      in round2 (jmul p (jsub (Fin 1) (jdiv coveragePercent (Fin 100)))))"

datatype error = UnknownProductId string | PermissionDenied

definition createProduct :: "string \<Rightarrow> error + product" where
  "createProduct productId =
     (case find (\<lambda>p. pid p = productId) CATALOG of
        None \<Rightarrow> Inl (UnknownProductId productId)
      | Some found \<Rightarrow> Inr (new_Product found))"

section \<open>The cart, its observers and the prescription gate\<close>

text \<open>
  An observer is an object with an identity; \<open>has_update\<close> says whether it has an
  \<^verbatim>\<open>update\<close> method.  A call of the method is recorded as an event together with the
  cart it receives; the method is taken to return normally and to leave the cart alone,
  as the one of \<^verbatim>\<open>TotalDisplayObserver\<close> does.
\<close>

record observer =
  oid :: nat
  has_update :: bool

record CartLine =
  product :: product
  qty :: jsnum

record CartSubject =
  items :: "CartLine list"
  observers :: "observer list"

datatype alert = FileRequired | ConfirmRequired | RxRequired | ThankYou jsnum

datatype event = Alert alert | Update observer CartSubject

text \<open>
  The state of the page: the one cart, the flag hidden in \<^verbatim>\<open>Prescription\<close>, what has been
  shown and called so far, and the checkout button.
\<close>

record world =
  cart :: CartSubject
  verified :: bool
  events :: "event list"
  checkoutDisabled :: bool

definition new_CartSubject :: CartSubject where
  "new_CartSubject = \<lparr>items = [], observers = []\<rparr>"

definition addObserver :: "observer \<Rightarrow> world \<Rightarrow> world" where
  "addObserver observer w =
     w\<lparr>cart := (cart w)\<lparr>observers := observers (cart w) @ [observer]\<rparr>\<rparr>"

definition removeObserver :: "observer \<Rightarrow> world \<Rightarrow> world" where
  "removeObserver observer w =
     w\<lparr>cart := (cart w)\<lparr>observers := filter (\<lambda>ob. ob \<noteq> observer) (observers (cart w))\<rparr>\<rparr>"

definition notify :: "world \<Rightarrow> world" where
  "notify w =
     w\<lparr>events := events w @
          map (\<lambda>ob. Update ob (cart w)) (filter has_update (observers (cart w)))\<rparr>"

definition addItem :: "product \<Rightarrow> arg \<Rightarrow> world \<Rightarrow> world" where
  "addItem product' qty' w =
     (let quantity = Math_max (Fin 1) (Number_js (default_arg (Fin 1) qty'))
      in notify (w\<lparr>cart := (cart w)\<lparr>items := items (cart w) @
                         [\<lparr>product = product', qty = quantity\<rparr>]\<rparr>\<rparr>))"

text \<open>
  \<^verbatim>\<open>splice(index, 1)\<close>: the start is \<^verbatim>\<open>ToIntegerOrInfinity(index)\<close> (\<open>NaN\<close> becomes 0, a
  fraction is truncated), counted from the end when negative and clamped to the length;
  one element is deleted if there is one at the start.
\<close>

definition ToIntegerOrInfinity_start :: "nat \<Rightarrow> jsnum \<Rightarrow> nat" where
  "ToIntegerOrInfinity_start len x =
     (case x of
        NaN \<Rightarrow> 0
      | NInf \<Rightarrow> 0
      | PInf \<Rightarrow> len
      | Fin q \<Rightarrow>
          let t = (if 0 \<le> q then \<lfloor>q\<rfloor> else \<lceil>q\<rceil>)
          in if t < 0 then nat (max (int len + t) 0) else min (nat t) len)"

definition splice1 :: "arg \<Rightarrow> 'a list \<Rightarrow> 'a list" where
  "splice1 index xs =
     (let len = length xs;
          start = ToIntegerOrInfinity_start len (Number_js index);
          deleteCount = min 1 (len - start)
      in take start xs @ drop (start + deleteCount) xs)"

definition removeItem :: "arg \<Rightarrow> world \<Rightarrow> world" where
  "removeItem index w =
     notify (w\<lparr>cart := (cart w)\<lparr>items := splice1 index (items (cart w))\<rparr>\<rparr>)"

definition clear :: "world \<Rightarrow> world" where
  "clear w = notify (w\<lparr>cart := (cart w)\<lparr>items := []\<rparr>\<rparr>)"

definition getTotal :: "CartSubject \<Rightarrow> jsnum" where
  "getTotal c =
     foldl (\<lambda>sum item. jadd sum (jmul (getPrice (product item)) (qty item))) (Fin 0) (items c)"

definition isVerified :: "world \<Rightarrow> bool" where
  "isVerified w = verified w"

definition verify :: "bool \<Rightarrow> bool \<Rightarrow> world \<Rightarrow> bool \<times> world" where
  "verify hasFile confirmed w =
     (if \<not> hasFile then (False, w\<lparr>events := events w @ [Alert FileRequired]\<rparr>)
      else if \<not> confirmed then (False, w\<lparr>events := events w @ [Alert ConfirmRequired]\<rparr>)
      else (True, w\<lparr>verified := True\<rparr>))"

section \<open>The event handlers\<close>

text \<open>
  The click on an \<^emph>\<open>Add to Cart\<close> button.  \<open>discount\<close> is the number read from the discount
  box, \<open>insuranceSel\<close> the choice of the insurance box (\<open>None\<close> for \<^verbatim>\<open>'none'\<close>, otherwise the
  number its text denotes), \<open>qtyValue\<close> the number read from the quantity field.  An unknown
  product id throws; the prescription guard shows an alert and returns, which the
  specification calls \<open>PermissionDenied\<close>.
\<close>

definition add_to_cart_click ::
    "string \<Rightarrow> jsnum \<Rightarrow> jsnum option \<Rightarrow> jsnum \<Rightarrow> world \<Rightarrow> (error + unit) \<times> world" where
  "add_to_cart_click productId discount insuranceSel qtyValue w =
     (let qty' = (if truthy qtyValue then qtyValue else Fin 1)
      in case createProduct productId of
           Inl e \<Rightarrow> (Inl e, w)
         | Inr product0 \<Rightarrow>
             if prescriptionRequired (product_fields product0) = True \<and> \<not> isVerified w
             then (Inl PermissionDenied, w\<lparr>events := events w @ [Alert RxRequired]\<rparr>)
             else
               let product1 = (if jless (Fin 0) discount
                               then new_DiscountDecorator product0 (Some discount)
                               else product0);
                   product2 = (case insuranceSel of
                                 None \<Rightarrow> product1
                               | Some n \<Rightarrow> new_InsuranceDecorator product1 (Some n));
                   w1 = addItem product2 (Some qty') w
               in (Inr (), w1\<lparr>checkoutDisabled := (length (items (cart w1)) = 0)\<rparr>))"

text \<open>The click on the remove button of the line displayed at position \<open>idx\<close>.\<close>

definition remove_click :: "nat \<Rightarrow> world \<Rightarrow> world" where
  "remove_click idx w =
     (let w1 = removeItem (Some (Fin (of_nat idx))) w
      in w1\<lparr>checkoutDisabled := (length (items (cart w1)) = 0)\<rparr>)"

definition rx_verify_click :: "bool \<Rightarrow> bool \<Rightarrow> world \<Rightarrow> world" where
  "rx_verify_click hasFile confirmed w = snd (verify hasFile confirmed w)"

definition checkout_click :: "world \<Rightarrow> world" where
  "checkout_click w =
     (if length (items (cart w)) = 0 then w
      else
        let w1 = w\<lparr>events := events w @ [Alert (ThankYou (getTotal (cart w)))]\<rparr>;
            w2 = clear w1
        in w2\<lparr>checkoutDisabled := True\<rparr>)"

text \<open>
  The page after loading: a new cart with the total display as its one observer,
  notified once; nothing verified yet.
\<close>

definition totalDisplay :: observer where
  "totalDisplay = \<lparr>oid = 0, has_update = True\<rparr>"

definition init_world :: "bool \<Rightarrow> world" where
  "init_world disabled =
     notify (addObserver totalDisplay
       \<lparr>cart = new_CartSubject, verified = False, events = [], checkoutDisabled = disabled\<rparr>)"

text \<open>
  Everything the program can do to its state: the methods of the cart and of the gate,
  called directly, and the four handlers.
\<close>

datatype action =
    AddObserver observer
  | RemoveObserver observer
  | Notify
  | AddItem product arg
  | RemoveItem arg
  | Clear
  | Verify bool bool
  | AddToCartClick string jsnum "jsnum option" jsnum
  | RemoveClick nat
  | RxVerifyClick bool bool
  | CheckoutClick

fun step :: "world \<Rightarrow> action \<Rightarrow> world" where
  "step w (AddObserver ob) = addObserver ob w"
| "step w (RemoveObserver ob) = removeObserver ob w"
| "step w Notify = notify w"
| "step w (AddItem p q) = addItem p q w"
| "step w (RemoveItem i) = removeItem i w"
| "step w Clear = clear w"
| "step w (Verify hasFile confirmed) = snd (verify hasFile confirmed w)"
| "step w (AddToCartClick productId discount insuranceSel qtyValue) =
     snd (add_to_cart_click productId discount insuranceSel qtyValue w)"
| "step w (RemoveClick idx) = remove_click idx w"
| "step w (RxVerifyClick hasFile confirmed) = rx_verify_click hasFile confirmed w"
| "step w CheckoutClick = checkout_click w"

definition run :: "action list \<Rightarrow> world \<Rightarrow> world" where
  "run acts w = foldl step w acts"

section \<open>Notions used in the statements\<close>

text \<open>The observer an event calls, if the event is a call of an \<^verbatim>\<open>update\<close> method.\<close>

fun update_target :: "event \<Rightarrow> observer option" where
  "update_target (Update ob c) = Some ob"
| "update_target (Alert a) = None"

text \<open>\<^verbatim>\<open>Number.isInteger\<close>: a finite number without fractional part.\<close>

definition Number_isInteger :: "jsnum \<Rightarrow> bool" where
  "Number_isInteger x = (case x of Fin q \<Rightarrow> of_int \<lfloor>q\<rfloor> = q | _ \<Rightarrow> False)"

text \<open>An undecorated product with a given price, and a page with two lines in the cart.\<close>

definition plain_product :: "jsnum \<Rightarrow> product" where
  "plain_product price =
     Product \<lparr>pid = ''demo'', name = ''Demo item'', basePrice = price,
              prescriptionRequired = False\<rparr>"

definition two_lines :: world where
  "two_lines =
     run [AddItem (plain_product (Fin 10)) (Some (Fin 2)),
          AddItem (plain_product (Fin 20)) (Some (Fin 1))] (init_world True)"

section \<open>The rounding model\<close>

text \<open>
  \<open>ilog2\<close> brackets its argument between two consecutive powers of two, and a finite
  result of \<open>fround\<close> is at most half a unit in the last place away from the exact value.
\<close>

lemma bitlen_bounds: "0 < n \<Longrightarrow> 2 ^ (bitlen n - 1) \<le> n \<and> n < 2 ^ bitlen n"
proof (induction n rule: bitlen.induct)
  case (1 n)
  show ?case
  proof (cases "n div 2 = 0")
    case True
    with "1.prems" have "n = 1" by (simp add: div_eq_0_iff) 
    then show ?thesis by (simp add: bitlen.simps)
  next
    case False
    then have pos: "0 < n div 2" by simp
    from "1.prems" have n0: "n \<noteq> 0" by simp
    from "1.IH" [OF n0 pos]
    have lo: "2 ^ (bitlen (n div 2) - 1) \<le> n div 2" and hi: "n div 2 < 2 ^ bitlen (n div 2)"
      by simp_all
    have b: "bitlen n = Suc (bitlen (n div 2))"
      using n0 by (simp add: bitlen.simps)
    have bp: "0 < bitlen (n div 2)"
      using pos by (simp add: bitlen.simps)
    from lo have "2 * 2 ^ (bitlen (n div 2) - 1) \<le> n" by linarith
    moreover have "2 * 2 ^ (bitlen (n div 2) - 1) = (2::nat) ^ bitlen (n div 2)"
      using bp by (cases "bitlen (n div 2)") simp_all
    moreover from hi have "n < 2 * 2 ^ bitlen (n div 2)" by linarith
    ultimately show ?thesis by (simp add: b)
  qed
qed


lemma pow2_pos: "0 < pow2 k"
  by (simp add: pow2_def)

lemma pow2_Suc: "pow2 (k + 1) = 2 * pow2 k"
proof (cases "0 \<le> k")
  case True
  then show ?thesis by (simp add: pow2_def nat_add_distrib)
next
  case False
  then have "nat (- k) = Suc (nat (- k - 1))" by simp
  then have "(2::rat) ^ nat (- k) = 2 * 2 ^ nat (- k - 1)"
    by simp
  with False show ?thesis
    by (cases "k = - 1") (simp_all add: pow2_def)
qed



lemma pow_le_rat: "(2::nat) ^ k \<le> n \<Longrightarrow> (2::rat) ^ k \<le> of_nat n"
proof -
  assume "(2::nat) ^ k \<le> n"
  then have "(of_nat (2 ^ k) :: rat) \<le> of_nat n" by (simp only: of_nat_le_iff)
  then show ?thesis by simp
qed

lemma lt_pow_rat: "n < (2::nat) ^ k \<Longrightarrow> of_nat n + 1 \<le> (2::rat) ^ k"
proof -
  assume "n < (2::nat) ^ k"
  then have "Suc n \<le> 2 ^ k" by simp
  then have "(of_nat (Suc n) :: rat) \<le> of_nat (2 ^ k)" by (simp only: of_nat_le_iff)
  then show ?thesis by simp
qed

lemma ilog2_bracket_ge1:
  assumes "1 \<le> a"
  shows "pow2 (ilog2 a) \<le> a \<and> a < pow2 (ilog2 a + 1)"
proof -
  define n where "n = nat \<lfloor>a\<rfloor>"
  from assms have fl: "1 \<le> \<lfloor>a\<rfloor>" by (simp add: le_floor_iff)
  then have npos: "0 < n" unfolding n_def by simp
  from fl have nr: "(of_nat n :: rat) = of_int \<lfloor>a\<rfloor>"
    unfolding n_def by simp
  have lo: "of_nat n \<le> a" unfolding nr by (rule of_int_floor_le)
  have hi: "a < of_nat n + 1" unfolding nr by linarith
  from bitlen_bounds [OF npos] have b1: "2 ^ (bitlen n - 1) \<le> n" and b2: "n < 2 ^ bitlen n"
    by simp_all
  from npos have bp: "0 < bitlen n" by (simp add: bitlen.simps)
  have il: "ilog2 a = int (bitlen n) - 1"
    using assms by (simp add: ilog2_def n_def)
  from bp have "nat (int (bitlen n) - 1) = bitlen n - 1" by simp
  with bp have p1: "pow2 (ilog2 a) = 2 ^ (bitlen n - 1)"
    by (simp add: il pow2_def)
  have p2: "pow2 (ilog2 a + 1) = 2 ^ bitlen n"
    by (simp add: il pow2_def)
  from pow_le_rat [OF b1] lo have "(2::rat) ^ (bitlen n - 1) \<le> a" by linarith
  moreover from lt_pow_rat [OF b2] hi have "a < (2::rat) ^ bitlen n" by linarith
  ultimately show ?thesis by (simp only: p1 p2 simp_thms)
qed


lemma ilog2_bracket_lt1:
  assumes "0 < a" and "a < 1"
  shows "pow2 (ilog2 a) \<le> a \<and> a < pow2 (ilog2 a + 1)"
proof -
  define b where "b = 1 / a"
  define m where "m = nat (\<lceil>b\<rceil> - 1)"
  from assms have big: "1 < b" unfolding b_def by simp
  then have c2: "2 \<le> \<lceil>b\<rceil>" by linarith
  then have mpos: "0 < m" unfolding m_def by simp
  from c2 have mr: "(of_nat m :: rat) = of_int \<lceil>b\<rceil> - 1"
    unfolding m_def by simp
  have up: "b \<le> of_nat m + 1" unfolding mr by simp
  have dn: "of_nat m < b" unfolding mr by linarith
  from bitlen_bounds [OF mpos] have b1: "2 ^ (bitlen m - 1) \<le> m" and b2: "m < 2 ^ bitlen m"
    by simp_all
  from mpos have bp: "0 < bitlen m" by (simp add: bitlen.simps)
  have il: "ilog2 a = - int (bitlen m)"
    using assms by (simp add: ilog2_def m_def b_def)
  have p1: "pow2 (ilog2 a) = 1 / 2 ^ bitlen m"
    using bp by (simp add: il pow2_def)
  from bp have "nat (int (bitlen m) - 1) = bitlen m - 1" by simp
  with bp have p2: "pow2 (ilog2 a + 1) = 1 / 2 ^ (bitlen m - 1)"
    by (cases "bitlen m = 1") (simp_all add: il pow2_def)
  from pow_le_rat [OF b1] dn have lo: "(2::rat) ^ (bitlen m - 1) < b" by linarith
  from lt_pow_rat [OF b2] up have hi: "b \<le> (2::rat) ^ bitlen m" by linarith
  have ab: "a = 1 / b" unfolding b_def by simp
  from big have bpos: "0 < b" by linarith
  have "1 / 2 ^ bitlen m \<le> 1 / b"
    using hi bpos by (intro divide_left_mono) simp_all
  then have l: "1 / 2 ^ bitlen m \<le> a" by (simp only: ab)
  have "1 / b < 1 / 2 ^ (bitlen m - 1)"
    using lo bpos by (intro divide_strict_left_mono) simp_all
  then have h: "a < 1 / 2 ^ (bitlen m - 1)" by (simp only: ab)
  from l h show ?thesis by (simp only: p1 p2 simp_thms)
qed

lemma ilog2_bracket: "0 < a \<Longrightarrow> pow2 (ilog2 a) \<le> a \<and> a < pow2 (ilog2 a + 1)"
  using ilog2_bracket_ge1 [of a] ilog2_bracket_lt1 [of a] by (cases "1 \<le> a") simp_all


lemma round_half_even_near: "\<bar>of_int (round_half_even m) - m\<bar> \<le> 1 / 2"
proof -
  have lo: "of_int \<lfloor>m\<rfloor> \<le> m" by (rule of_int_floor_le)
  have hi: "m < of_int \<lfloor>m\<rfloor> + 1" by linarith
  show ?thesis
    unfolding round_half_even_def Let_def using lo hi by (auto simp: abs_le_iff)
qed

lemma fround_near:
  assumes "fround q = Fin r"
  shows "\<bar>r - q\<bar> \<le> pow2 (max (ilog2 \<bar>q\<bar>) (- 1022) - 52) / 2"
proof (cases "q = 0")
  case True
  with assms have "r = 0" by (simp add: fround_def)
  with True show ?thesis using pow2_pos [of "max (ilog2 \<bar>q\<bar>) (- 1022) - 52"] by simp
next
  case False
  define u where "u = pow2 (max (ilog2 \<bar>q\<bar>) (- 1022) - 52)"
  define n where "n = round_half_even (\<bar>q\<bar> / u)"
  have upos: "0 < u" unfolding u_def by (rule pow2_pos)
  from assms False have r: "r = sgn q * of_int n * u"
    by (simp add: fround_def Let_def n_def u_def split: if_splits)
  have "\<bar>of_int n - \<bar>q\<bar> / u\<bar> \<le> 1 / 2"
    unfolding n_def by (rule round_half_even_near)
  then have "\<bar>of_int n - \<bar>q\<bar> / u\<bar> * u \<le> 1 / 2 * u"
    using upos by (intro mult_right_mono) simp_all
  moreover have "\<bar>of_int n - \<bar>q\<bar> / u\<bar> * u = \<bar>of_int n * u - \<bar>q\<bar>\<bar>"
  proof -
    have "\<bar>of_int n - \<bar>q\<bar> / u\<bar> * u = \<bar>(of_int n - \<bar>q\<bar> / u) * u\<bar>"
      using upos by (simp add: abs_mult)
    also have "(of_int n - \<bar>q\<bar> / u) * u = of_int n * u - \<bar>q\<bar>"
      using upos by (simp add: left_diff_distrib)
    finally show ?thesis .
  qed
  moreover have "\<bar>r - q\<bar> = \<bar>of_int n * u - \<bar>q\<bar>\<bar>"
  proof (cases "q < 0")
    case True
    then have "r - q = - (of_int n * u - \<bar>q\<bar>)" by (simp add: r)
    then show ?thesis by (simp only: abs_minus_cancel)
  next
    case False
    with \<open>q \<noteq> 0\<close> have "r - q = of_int n * u - \<bar>q\<bar>" by (simp add: r)
    then show ?thesis by simp
  qed
  ultimately show ?thesis by (simp add: u_def)
qed

section \<open>What the operations leave alone\<close>

lemma notify_fields [simp]:
  "cart (notify w) = cart w"
  "verified (notify w) = verified w"
  "checkoutDisabled (notify w) = checkoutDisabled w"
  by (simp_all add: notify_def)

lemma verified_addItem [simp]: "verified (addItem p q w) = verified w"
  by (simp add: addItem_def Let_def)

lemma verified_removeItem [simp]: "verified (removeItem i w) = verified w"
  by (simp add: removeItem_def)

lemma verified_clear [simp]: "verified (clear w) = verified w"
  by (simp add: clear_def)

lemma verified_verify: "verified w \<Longrightarrow> verified (snd (verify hasFile confirmed w))"
  by (simp add: verify_def)

lemma verified_click: "verified w \<Longrightarrow> verified (snd (add_to_cart_click productId d i q w))"
  by (simp add: add_to_cart_click_def Let_def split: sum.splits option.splits)

lemma verified_step: "verified w \<Longrightarrow> verified (step w a)"
  by (cases a)
     (simp_all add: addObserver_def removeObserver_def verified_verify verified_click
        remove_click_def rx_verify_click_def checkout_click_def Let_def)

lemma observers_addItem [simp]: "observers (cart (addItem p q w)) = observers (cart w)"
  by (simp add: addItem_def Let_def)

lemma observers_removeItem [simp]: "observers (cart (removeItem i w)) = observers (cart w)"
  by (simp add: removeItem_def)

lemma observers_clear [simp]: "observers (cart (clear w)) = observers (cart w)"
  by (simp add: clear_def)

lemma items_removeItem [simp]:
  "items (cart (removeItem i w)) = splice1 i (items (cart w))"
  by (simp add: removeItem_def)

lemma getTotal_cong: "items c = items c' \<Longrightarrow> getTotal c = getTotal c'"
  by (simp add: getTotal_def)

lemma items_two_lines:
  "items (cart two_lines) =
     [\<lparr>product = plain_product (Fin 10), qty = Fin 2\<rparr>,
      \<lparr>product = plain_product (Fin 20), qty = Fin 1\<rparr>]"
  by (simp add: two_lines_def run_def addItem_def init_world_def addObserver_def
        new_CartSubject_def Let_def Math_max_def Number_js_def default_arg_def)

section \<open>Prices\<close>

lemma clamp_10: "Math_max (Fin 0) (Math_min (Fin 100) (Fin 10)) = Fin 10"
  and clamp_20: "Math_max (Fin 0) (Math_min (Fin 100) (Fin 20)) = Fin 20"
  and clamp_25: "Math_max (Fin 0) (Math_min (Fin 100) (Fin 25)) = Fin 25"
  and clamp_30: "Math_max (Fin 0) (Math_min (Fin 100) (Fin 30)) = Fin 30"
  and clamp_50: "Math_max (Fin 0) (Math_min (Fin 100) (Fin 50)) = Fin 50"
  by (simp_all add: Math_max_def Math_min_def)

lemma clamp_range:
  "n \<noteq> NaN \<Longrightarrow>
     jle (Fin 0) (Math_max (Fin 0) (Math_min (Fin 100) n))
     \<and> jle (Math_max (Fin 0) (Math_min (Fin 100) n)) (Fin 100)"
  by (cases n) (simp_all add: Math_max_def Math_min_def jle_def)

lemma clamp_id:
  "jle (Fin 0) n \<Longrightarrow> jle n (Fin 100) \<Longrightarrow> Math_max (Fin 0) (Math_min (Fin 100) n) = n"
  by (cases n) (auto simp: Math_max_def Math_min_def jle_def)

lemma floor_rat_one: "\<lfloor>1 / numeral b :: rat\<rfloor> = 1 div numeral b"
  using floor_divide_of_int_eq [of 1 "numeral b", where ?'a = rat] by simp

text \<open>
  \<open>round2\<close> rounds to two decimals: below \<open>10\<^sup>2\<^sup>1\<close> the result is the binary64 value of a
  multiple of \<open>1 / 100\<close> that is at most \<open>1 / 200\<close> away from the argument.
\<close>

lemma round2_two_decimals:
  assumes "\<bar>a\<bar> < 10 ^ 21"
  defines "r \<equiv> sgn a * of_int \<lfloor>\<bar>a\<bar> * 100 + 1 / 2\<rfloor> / 100"
  shows "round2 (Fin a) = fround r" and "\<bar>r - a\<bar> \<le> 1 / 200" and "r * 100 \<in> \<int>"
proof -
  show "round2 (Fin a) = fround r"
    using assms by (simp add: round2_def)
  define x where "x = \<bar>a\<bar> * 100"
  define n where "n = \<lfloor>x + 1 / 2\<rfloor>"
  have lo: "of_int n \<le> x + 1 / 2"
    unfolding n_def by (rule of_int_floor_le)
  have hi: "x + 1 / 2 < of_int n + 1"
    unfolding n_def by linarith
  have near: "\<bar>of_int n - x\<bar> \<le> 1 / 2"
    using lo hi by linarith
  have r: "r = sgn a * of_int n / 100"
    by (simp add: r_def n_def x_def)
  have "\<bar>r - a\<bar> * 100 = \<bar>of_int n - x\<bar>"
  proof (cases "a < 0")
    case True
    then show ?thesis by (simp add: r x_def abs_if sgn_if)
  next
    case False
    then show ?thesis
      by (cases "a = 0") (simp_all add: r x_def n_def abs_if sgn_if floor_rat_one)
  qed
  with near have "\<bar>r - a\<bar> * 100 \<le> 1 / 2" by simp
  then show "\<bar>r - a\<bar> \<le> 1 / 200" by simp
  show "r * 100 \<in> \<int>"
    by (simp add: r sgn_if)
qed

text \<open>
  Two familiar facts of binary64 arithmetic, as a check of \<open>fround\<close>: the value of the
  literal \<^verbatim>\<open>0.1\<close>, and \<^verbatim>\<open>0.1 + 0.2 !== 0.3\<close>.
\<close>

lemma lit_tenth: "lit (1 / 10) = Fin (3602879701896397 / 2 ^ 55)"
  by code_simp

lemma tenth_plus_fifth: "jadd (lit (1 / 10)) (lit (2 / 10)) \<noteq> lit (3 / 10)"
  by code_simp

text \<open>The arithmetic of the examples, computed on binary64 values.\<close>

lemma layer_50_10: "round2 (jmul (Fin 50) (jsub (Fin 1) (jdiv (Fin 10) (Fin 100)))) = Fin 45"
  by code_simp

lemma layer_45_30: "round2 (jmul (Fin 45) (jsub (Fin 1) (jdiv (Fin 30) (Fin 100)))) = Fin (63 / 2)"
  by code_simp

lemma layer_100_25: "round2 (jmul (Fin 100) (jsub (Fin 1) (jdiv (Fin 25) (Fin 100)))) = Fin 75"
  by code_simp

lemma once_50: "round2 (jmul (jmul (Fin 50) (lit (9 / 10))) (lit (7 / 10))) = Fin (63 / 2)"
  by code_simp

lemma once_50_exact: "round2 (Fin (50 * (9 / 10) * (7 / 10))) = Fin (63 / 2)"
  by code_simp

lemma layer_amox_20:
  "round2 (jmul (lit (2499 / 100)) (jsub (Fin 1) (jdiv (Fin 20) (Fin 100)))) = lit (1999 / 100)"
  by code_simp

lemma layer_amox_50:
  "round2 (jmul (lit (1999 / 100)) (jsub (Fin 1) (jdiv (Fin 50) (Fin 100)))) = lit (999 / 100)"
  by code_simp

lemma once_amox:
  "round2 (jmul (jmul (lit (2499 / 100)) (lit (4 / 5))) (lit (1 / 2))) = Fin 10"
  by code_simp

lemma lit_999: "lit (999 / 100) \<noteq> Fin 10"
  by code_simp

lemma chain_50:
  "getPrice (new_DiscountDecorator (Product (e\<lparr>basePrice := Fin 50\<rparr>)) (Some (Fin 10))) = Fin 45"
  "getPrice (new_InsuranceDecorator
      (new_DiscountDecorator (Product (e\<lparr>basePrice := Fin 50\<rparr>)) (Some (Fin 10)))
      (Some (Fin 30))) = Fin (63 / 2)"
  by (simp_all add: new_DiscountDecorator_def new_InsuranceDecorator_def Number_js_def
        default_arg_def clamp_10 clamp_30 layer_50_10 layer_45_30
        del: jdiv.simps jmul.simps)

lemma chain_amox:
  "getPrice (new_InsuranceDecorator
      (new_DiscountDecorator (Product (e\<lparr>basePrice := lit (2499 / 100)\<rparr>)) (Some (Fin 20)))
      (Some (Fin 50))) = lit (999 / 100)"
  by (simp add: new_DiscountDecorator_def new_InsuranceDecorator_def Number_js_def
        default_arg_def clamp_20 clamp_50 layer_amox_20 layer_amox_50
        del: jdiv.simps jmul.simps)

text \<open>
  C1, as amended.  In every modifier chain the price of a layer is \<open>round2\<close> of the price
  of its child times \<open>1 - percent / 100\<close>, so the rounding is done at every layer.  On a base
  of 50, a discount of 10 gives 45.00 and an insurance of 30 on top gives 31.50.  At this
  input \<open>50 * 0.9 * 0.7\<close> rounded once is 31.50 as well; the two computations differ
  elsewhere: the catalog price 24.99 with a discount of 20 and an insurance of 50 costs
  9.99 layer by layer and 10.00 when rounded once.
\<close>

theorem price_rounded_at_each_layer:
  "getPrice (DiscountDecorator w percent)
     = round2 (jmul (getPrice w) (jsub (Fin 1) (jdiv percent (Fin 100))))
   \<and> getPrice (InsuranceDecorator w coveragePercent)
     = round2 (jmul (getPrice w) (jsub (Fin 1) (jdiv coveragePercent (Fin 100))))
   \<and> getPrice (new_DiscountDecorator (Product (e\<lparr>basePrice := Fin 50\<rparr>)) (Some (Fin 10))) = Fin 45
   \<and> getPrice (new_InsuranceDecorator
         (new_DiscountDecorator (Product (e\<lparr>basePrice := Fin 50\<rparr>)) (Some (Fin 10)))
         (Some (Fin 30))) = Fin (63 / 2)
   \<and> round2 (jmul (jmul (Fin 50) (lit (9 / 10))) (lit (7 / 10))) = Fin (63 / 2)
   \<and> getPrice (new_InsuranceDecorator
         (new_DiscountDecorator (Product (e\<lparr>basePrice := lit (2499 / 100)\<rparr>)) (Some (Fin 20)))
         (Some (Fin 50))) = lit (999 / 100)
   \<and> round2 (jmul (jmul (lit (2499 / 100)) (lit (4 / 5))) (lit (1 / 2))) = Fin 10
   \<and> lit (999 / 100) \<noteq> Fin 10"
proof (intro conjI)
  show "getPrice (DiscountDecorator w percent)
     = round2 (jmul (getPrice w) (jsub (Fin 1) (jdiv percent (Fin 100))))"
    by (simp add: Let_def)
  show "getPrice (InsuranceDecorator w coveragePercent)
     = round2 (jmul (getPrice w) (jsub (Fin 1) (jdiv coveragePercent (Fin 100))))"
    by (simp add: Let_def)
qed (rule chain_50 chain_amox once_50 once_amox lit_999)+

text \<open>
  C1 as stated fails: the price of the chain on the base of 50 is equal to
  \<open>50 * 0.9 * 0.7\<close> rounded once, in binary64 arithmetic and in exact arithmetic.
\<close>

theorem chain_equals_single_rounding_counterexample:
  "getPrice (new_InsuranceDecorator
      (new_DiscountDecorator (plain_product (Fin 50)) (Some (Fin 10))) (Some (Fin 30)))
     = round2 (jmul (jmul (Fin 50) (lit (9 / 10))) (lit (7 / 10)))
   \<and> getPrice (new_InsuranceDecorator
      (new_DiscountDecorator (plain_product (Fin 50)) (Some (Fin 10))) (Some (Fin 30)))
     = round2 (Fin (50 * (9 / 10) * (7 / 10)))"
proof -
  have "getPrice (new_InsuranceDecorator
      (new_DiscountDecorator (plain_product (Fin 50)) (Some (Fin 10))) (Some (Fin 30)))
      = Fin (63 / 2)"
    by (simp add: new_DiscountDecorator_def new_InsuranceDecorator_def Number_js_def
          default_arg_def clamp_10 clamp_30 layer_50_10 layer_45_30 plain_product_def
          del: jdiv.simps jmul.simps)
  then show ?thesis
    by (simp only: once_50 once_50_exact)
qed

text \<open>
  C7, as amended.  For every percentage that is a number (anything but \<open>NaN\<close>) the field
  stored by either constructor lies in \<open>[0, 100]\<close>: 150 is stored as 100, \<open>-10\<close> as 0, and an
  omitted coverage as 30.  For a percentage in \<open>[0, 100]\<close> the discounted price of a base of
  100 is \<open>round2 (100 * (1 - percent / 100))\<close>.
\<close>

theorem percent_clamped:
  "(n \<noteq> NaN \<longrightarrow>
      (\<exists>percent. new_DiscountDecorator w (Some n) = DiscountDecorator w percent
          \<and> jle (Fin 0) percent \<and> jle percent (Fin 100))
      \<and> (\<exists>coveragePercent. new_InsuranceDecorator w (Some n) = InsuranceDecorator w coveragePercent
          \<and> jle (Fin 0) coveragePercent \<and> jle coveragePercent (Fin 100)))
   \<and> new_DiscountDecorator w (Some (Fin 150)) = new_DiscountDecorator w (Some (Fin 100))
   \<and> new_DiscountDecorator w (Some (Fin 150)) = DiscountDecorator w (Fin 100)
   \<and> new_DiscountDecorator w (Some (Fin (- 10))) = new_DiscountDecorator w (Some (Fin 0))
   \<and> new_DiscountDecorator w (Some (Fin (- 10))) = DiscountDecorator w (Fin 0)
   \<and> new_InsuranceDecorator w (Some (Fin 150)) = InsuranceDecorator w (Fin 100)
   \<and> new_InsuranceDecorator w (Some (Fin (- 10))) = InsuranceDecorator w (Fin 0)
   \<and> new_InsuranceDecorator w None = InsuranceDecorator w (Fin 30)
   \<and> (jle (Fin 0) n \<and> jle n (Fin 100) \<longrightarrow>
        getPrice (new_DiscountDecorator (Product (e\<lparr>basePrice := Fin 100\<rparr>)) (Some n))
          = round2 (jmul (Fin 100) (jsub (Fin 1) (jdiv n (Fin 100)))))"
  by (simp add: new_DiscountDecorator_def new_InsuranceDecorator_def Number_js_def
        default_arg_def clamp_range clamp_id)
     (simp add: Math_max_def Math_min_def)

theorem percent_clamped_witness:
  "Fin 25 \<noteq> NaN \<and> jle (Fin 0) (Fin 25) \<and> jle (Fin 25) (Fin 100)
   \<and> new_DiscountDecorator (plain_product (Fin 100)) (Some (Fin 25))
       = DiscountDecorator (plain_product (Fin 100)) (Fin 25)
   \<and> getPrice (new_DiscountDecorator (Product ((hd CATALOG)\<lparr>basePrice := Fin 100\<rparr>))
        (Some (Fin 25))) = Fin 75"
  using percent_clamped [of "Fin 25" "plain_product (Fin 100)" "hd CATALOG"]
  by (simp add: jle_def layer_100_25 new_DiscountDecorator_def Number_js_def clamp_25
        del: jdiv.simps jmul.simps)

text \<open>
  C7 as stated fails for \<open>NaN\<close>, the value of \<^verbatim>\<open>Number('abc')\<close> and of a missing
  argument: it is stored as it is, outside \<open>[0, 100]\<close>, and the price becomes \<open>NaN\<close>.
\<close>

theorem percent_NaN_counterexample:
  "new_DiscountDecorator (plain_product (Fin 100)) (Some NaN)
     = DiscountDecorator (plain_product (Fin 100)) NaN
   \<and> new_InsuranceDecorator (plain_product (Fin 100)) (Some NaN)
     = InsuranceDecorator (plain_product (Fin 100)) NaN
   \<and> new_DiscountDecorator (plain_product (Fin 100)) None
     = DiscountDecorator (plain_product (Fin 100)) NaN
   \<and> \<not> (jle (Fin 0) NaN \<and> jle NaN (Fin 100))
   \<and> getPrice (new_DiscountDecorator (plain_product (Fin 100)) (Some NaN)) = NaN"
  by (simp add: new_DiscountDecorator_def new_InsuranceDecorator_def Number_js_def
        default_arg_def Math_max_def Math_min_def jle_def round2_def jsub_def plain_product_def
        Let_def)

section \<open>The prescription gate\<close>

text \<open>
  C3.  \<open>verify\<close> returns true exactly when both \<open>hasFile\<close> and \<open>confirmed\<close> are true.  When
  it returns false the gate keeps the state it had before the call (and the cart is
  untouched); when it returns true the gate is verified.
\<close>

theorem verify_true_iff_both:
  "fst (verify hasFile confirmed w) = (hasFile \<and> confirmed)
   \<and> (\<not> fst (verify hasFile confirmed w) \<longrightarrow>
        verified (snd (verify hasFile confirmed w)) = verified w
        \<and> cart (snd (verify hasFile confirmed w)) = cart w)
   \<and> (fst (verify hasFile confirmed w) \<longrightarrow> verified (snd (verify hasFile confirmed w)))"
  by (simp add: verify_def)

theorem verify_true_iff_both_witness:
  "\<not> fst (verify False True (init_world True))
   \<and> \<not> verified (snd (verify False True (init_world True)))
   \<and> \<not> fst (verify True False (init_world True))
   \<and> \<not> verified (snd (verify True False (init_world True)))
   \<and> fst (verify True True (init_world True))
   \<and> verified (snd (verify True True (init_world True)))"
  using verify_true_iff_both [of False True "init_world True"]
    verify_true_iff_both [of True False "init_world True"]
    verify_true_iff_both [of True True "init_world True"]
  by (simp add: init_world_def addObserver_def)

text \<open>
  C4.  Once the gate is verified it stays verified: after any sequence of calls of
  \<open>verify\<close> (with any arguments), of cart methods and of handlers, \<open>isVerified\<close> still
  returns true.
\<close>

theorem verified_is_terminal:
  "verified w \<Longrightarrow> isVerified (run acts w)"
  unfolding run_def isVerified_def
  by (induction acts arbitrary: w) (simp_all add: verified_step)

theorem verified_is_terminal_witness:
  "verified (snd (verify True True (init_world True)))
   \<and> isVerified (run [Verify False False, Verify True False, AddItem (Product (hd CATALOG)) None,
        RemoveItem (Some (Fin 0)), RxVerifyClick False False, CheckoutClick, Clear]
        (snd (verify True True (init_world True))))"
proof -
  have v: "verified (snd (verify True True (init_world True)))"
    by (simp add: verify_def)
  from verified_is_terminal [OF v] v show ?thesis by simp
qed

text \<open>
  C2.  For a catalog product that requires a prescription, the add-to-cart handler of an
  unverified page refuses with \<open>PermissionDenied\<close>: it shows the alert and nothing else
  happens, so no line is appended and no observer is called.  After \<open>verify\<close> has succeeded
  with both arguments true, the same request appends one line.
\<close>

theorem prescription_guard:
  "createProduct productId = Inr p \<Longrightarrow> prescriptionRequired (product_fields p) \<Longrightarrow>
   \<not> isVerified w \<Longrightarrow>
     add_to_cart_click productId d i q w
       = (Inl PermissionDenied, w\<lparr>events := events w @ [Alert RxRequired]\<rparr>)
     \<and> items (cart (snd (add_to_cart_click productId d i q w))) = items (cart w)
     \<and> filter (\<lambda>e. update_target e \<noteq> None) (events (snd (add_to_cart_click productId d i q w)))
         = filter (\<lambda>e. update_target e \<noteq> None) (events w)
     \<and> fst (verify True True w)
     \<and> fst (add_to_cart_click productId d i q (snd (verify True True w))) = Inr ()
     \<and> items (cart (snd (add_to_cart_click productId d i q (snd (verify True True w)))))
         = items (cart w) @
           [\<lparr>product =
               (case i of
                  None \<Rightarrow> (if jless (Fin 0) d then new_DiscountDecorator p (Some d) else p)
                | Some n \<Rightarrow>
                    new_InsuranceDecorator
                      (if jless (Fin 0) d then new_DiscountDecorator p (Some d) else p) (Some n)),
              qty = Math_max (Fin 1) (if truthy q then q else Fin 1)\<rparr>]"
  by (simp add: add_to_cart_click_def verify_def isVerified_def addItem_def Let_def
        Number_js_def default_arg_def split: option.splits)

theorem prescription_guard_witness:
  "createProduct ''amox500'' = Inr (Product (hd CATALOG))
   \<and> prescriptionRequired (product_fields (Product (hd CATALOG)))
   \<and> \<not> isVerified (init_world True)
   \<and> fst (add_to_cart_click ''amox500'' (Fin 20) (Some (Fin 50)) (Fin 2) (init_world True))
       = Inl PermissionDenied
   \<and> items (cart (snd (add_to_cart_click ''amox500'' (Fin 20) (Some (Fin 50)) (Fin 2)
        (init_world True)))) = []
   \<and> items (cart (snd (add_to_cart_click ''amox500'' (Fin 20) (Some (Fin 50)) (Fin 2)
        (snd (verify True True (init_world True))))))
       = [\<lparr>product = InsuranceDecorator (DiscountDecorator (Product (hd CATALOG)) (Fin 20)) (Fin 50),
           qty = Fin 2\<rparr>]"
proof -
  have a: "createProduct ''amox500'' = Inr (Product (hd CATALOG))"
    by (simp add: createProduct_def CATALOG_def new_Product_def)
  have b: "prescriptionRequired (product_fields (Product (hd CATALOG)))"
    by (simp add: CATALOG_def)
  have c: "\<not> isVerified (init_world True)"
    by (simp add: isVerified_def init_world_def addObserver_def)
  have e: "items (cart (init_world True)) = []"
    by (simp add: init_world_def addObserver_def new_CartSubject_def)
  from prescription_guard [OF a b c, of "Fin 20" "Some (Fin 50)" "Fin 2"] a b c e
  show ?thesis
    by (simp add: new_DiscountDecorator_def new_InsuranceDecorator_def Math_max_def
          Math_min_def Number_js_def default_arg_def truthy_def)
qed

section \<open>The cart\<close>

lemma splice1_too_large:
  "int (length xs) \<le> i \<Longrightarrow> splice1 (Some (Fin (of_int i))) xs = xs"
  by (simp add: splice1_def ToIntegerOrInfinity_start_def Number_js_def Let_def)

lemma splice1_in_range:
  "0 \<le> i \<Longrightarrow> i < int (length xs) \<Longrightarrow>
     splice1 (Some (Fin (of_int i))) xs = take (nat i) xs @ drop (Suc (nat i)) xs"
proof -
  assume a: "0 \<le> i" and b: "i < int (length xs)"
  then have s: "ToIntegerOrInfinity_start (length xs) (Fin (of_int i)) = nat i"
    by (simp add: ToIntegerOrInfinity_start_def Let_def)
  from a b have d: "min (Suc 0) (length xs - nat i) = Suc 0" by linarith
  show ?thesis
    by (simp add: splice1_def Number_js_def Let_def s d)
qed

lemma splice1_negative:
  "i < 0 \<Longrightarrow> xs \<noteq> [] \<Longrightarrow>
     splice1 (Some (Fin (of_int i))) xs
       = take (nat (max (int (length xs) + i) 0)) xs
         @ drop (Suc (nat (max (int (length xs) + i) 0))) xs"
  by (auto simp: splice1_def ToIntegerOrInfinity_start_def Number_js_def Let_def min_def max_def)

lemma nth_remove_before:
  "j < k \<Longrightarrow> k < length xs \<Longrightarrow> (take k xs @ drop (Suc k) xs) ! j = xs ! j"
  by (simp add: nth_append)

lemma nth_remove_after:
  "k \<le> j \<Longrightarrow> Suc j < length xs \<Longrightarrow> (take k xs @ drop (Suc k) xs) ! j = xs ! Suc j"
  by (simp add: nth_append min_def)

lemma getTotal_two_lines: "getTotal (cart two_lines) = Fin 40"
  by code_simp

lemma getTotal_after_remove:
  "getTotal (cart (removeItem (Some (Fin (- 1))) two_lines)) = Fin 20"
  by code_simp

text \<open>
  C5, as amended.  For an integer index \<open>i\<close>: if \<open>i\<close> is at least the number of lines,
  \<open>removeItem\<close> leaves the lines and the total as they are (and notifies the observers all
  the same); if \<open>i\<close> is in range it removes
  exactly the line at position \<open>i\<close> and every later line moves down by one; if \<open>i\<close> is
  negative and the cart is not empty it counts from the end, as \<^verbatim>\<open>splice\<close> does, and
  removes the line at position \<open>max (length + i) 0\<close>.
\<close>

theorem removeItem_positional:
  "(int (length (items (cart w))) \<le> i \<longrightarrow>
      items (cart (removeItem (Some (Fin (of_int i))) w)) = items (cart w)
      \<and> getTotal (cart (removeItem (Some (Fin (of_int i))) w)) = getTotal (cart w)
      \<and> events (removeItem (Some (Fin (of_int i))) w)
          = events w @ map (\<lambda>ob. Update ob (cart (removeItem (Some (Fin (of_int i))) w)))
              (filter has_update (observers (cart w))))
   \<and> (0 \<le> i \<and> i < int (length (items (cart w))) \<longrightarrow>
      items (cart (removeItem (Some (Fin (of_int i))) w))
        = take (nat i) (items (cart w)) @ drop (Suc (nat i)) (items (cart w))
      \<and> Suc (length (items (cart (removeItem (Some (Fin (of_int i))) w)))) = length (items (cart w))
      \<and> (\<forall>j. j < nat i \<longrightarrow>
            items (cart (removeItem (Some (Fin (of_int i))) w)) ! j = items (cart w) ! j)
      \<and> (\<forall>j. nat i \<le> j \<and> Suc j < length (items (cart w)) \<longrightarrow>
            items (cart (removeItem (Some (Fin (of_int i))) w)) ! j = items (cart w) ! Suc j))
   \<and> (i < 0 \<and> items (cart w) \<noteq> [] \<longrightarrow>
      items (cart (removeItem (Some (Fin (of_int i))) w))
        = take (nat (max (int (length (items (cart w))) + i) 0)) (items (cart w))
          @ drop (Suc (nat (max (int (length (items (cart w))) + i) 0))) (items (cart w)))"
proof (intro conjI impI)
  assume "int (length (items (cart w))) \<le> i"
  then show a: "items (cart (removeItem (Some (Fin (of_int i))) w)) = items (cart w)"
    by (simp add: splice1_too_large)
  then show "getTotal (cart (removeItem (Some (Fin (of_int i))) w)) = getTotal (cart w)"
    by (rule getTotal_cong)
  show "events (removeItem (Some (Fin (of_int i))) w)
          = events w @ map (\<lambda>ob. Update ob (cart (removeItem (Some (Fin (of_int i))) w)))
              (filter has_update (observers (cart w)))"
    by (simp add: removeItem_def notify_def)
next
  assume r: "0 \<le> i \<and> i < int (length (items (cart w)))"
  then show e: "items (cart (removeItem (Some (Fin (of_int i))) w))
        = take (nat i) (items (cart w)) @ drop (Suc (nat i)) (items (cart w))"
    by (simp add: splice1_in_range)
  from r have k: "nat i < length (items (cart w))" by linarith
  from k show "Suc (length (items (cart (removeItem (Some (Fin (of_int i))) w))))
      = length (items (cart w))"
    unfolding e by simp
  from k show "\<forall>j. j < nat i \<longrightarrow>
      items (cart (removeItem (Some (Fin (of_int i))) w)) ! j = items (cart w) ! j"
    unfolding e by (simp add: nth_remove_before)
  show "\<forall>j. nat i \<le> j \<and> Suc j < length (items (cart w)) \<longrightarrow>
      items (cart (removeItem (Some (Fin (of_int i))) w)) ! j = items (cart w) ! Suc j"
    unfolding e by (simp add: nth_remove_after)
next
  assume "i < 0 \<and> items (cart w) \<noteq> []"
  then show "items (cart (removeItem (Some (Fin (of_int i))) w))
        = take (nat (max (int (length (items (cart w))) + i) 0)) (items (cart w))
          @ drop (Suc (nat (max (int (length (items (cart w))) + i) 0))) (items (cart w))"
    by (simp add: splice1_negative)
qed

theorem removeItem_positional_witness:
  "int (length (items (cart two_lines))) \<le> 2
   \<and> items (cart (removeItem (Some (Fin (of_int 2))) two_lines)) = items (cart two_lines)
   \<and> (0 :: int) \<le> 0 \<and> (0 :: int) < int (length (items (cart two_lines)))
   \<and> items (cart (removeItem (Some (Fin (of_int 0))) two_lines))
       = [\<lparr>product = plain_product (Fin 20), qty = Fin 1\<rparr>]
   \<and> (- 5 :: int) < 0 \<and> items (cart two_lines) \<noteq> []
   \<and> items (cart (removeItem (Some (Fin (of_int (- 5)))) two_lines))
       = [\<lparr>product = plain_product (Fin 20), qty = Fin 1\<rparr>]"
  using removeItem_positional [of two_lines 2] removeItem_positional [of two_lines 0]
    removeItem_positional [of two_lines "- 5"]
  by (simp add: items_two_lines)

text \<open>
  C5 as stated fails for a negative index: \<open>-1\<close> is outside the positions \<open>0\<close> and \<open>1\<close>
  of a cart of two lines, and \<open>removeItem\<close> removes the last line, which brings the total
  from 40 down to 20.
\<close>

theorem removeItem_negative_index_counterexample:
  "\<not> (0 \<le> (- 1 :: int) \<and> (- 1 :: int) < int (length (items (cart two_lines))))
   \<and> items (cart (removeItem (Some (Fin (- 1))) two_lines))
       = [\<lparr>product = plain_product (Fin 10), qty = Fin 2\<rparr>]
   \<and> items (cart (removeItem (Some (Fin (- 1))) two_lines)) \<noteq> items (cart two_lines)
   \<and> getTotal (cart two_lines) = Fin 40
   \<and> getTotal (cart (removeItem (Some (Fin (- 1))) two_lines)) = Fin 20"
  by (simp add: items_two_lines splice1_def ToIntegerOrInfinity_start_def Number_js_def Let_def
        ceiling_def getTotal_two_lines getTotal_after_remove)

lemma stored_qty:
  "qty (last (items (cart (addItem p q w)))) = Math_max (Fin 1) (Number_js (default_arg (Fin 1) q))"
  by (simp add: addItem_def Let_def)

lemma Math_max_ge: "n \<noteq> NaN \<Longrightarrow> jle (Fin 1) (Math_max (Fin 1) n)"
  by (cases n) (simp_all add: Math_max_def jle_def)

lemma Math_max_below: "jless n (Fin 1) \<Longrightarrow> Math_max (Fin 1) n = Fin 1"
  by (cases n) (simp_all add: Math_max_def)

lemma Math_max_above: "jle (Fin 1) n \<Longrightarrow> Math_max (Fin 1) n = n"
  by (cases n) (auto simp: Math_max_def jle_def)

lemma Math_max_integer: "Number_isInteger n \<Longrightarrow> Number_isInteger (Math_max (Fin 1) n)"
  by (cases n) (simp_all add: Math_max_def Number_isInteger_def)

lemma not_integer_5_2: "\<not> Number_isInteger (Fin (5 / 2))"
  by code_simp

lemma click_fraction:
  "items (cart (snd (add_to_cart_click ''omep20'' (Fin 0) None (Fin (5 / 2)) (init_world True))))
     = [\<lparr>product = Product (CATALOG ! 3), qty = Fin (5 / 2)\<rparr>]"
  by (simp add: add_to_cart_click_def createProduct_def CATALOG_def new_Product_def truthy_def
        isVerified_def addItem_def Let_def Number_js_def default_arg_def Math_max_def
        init_world_def addObserver_def new_CartSubject_def notify_def)

text \<open>
  C6, as amended.  For every item and every quantity that is a number (anything but
  \<open>NaN\<close>) the stored quantity is at least 1: a value below 1 is replaced by 1, so 0 and
  \<open>-5\<close> (and an omitted quantity) store 1; a value from 1 on is stored as it is, so the
  stored quantity is an integer whenever the argument is one.
\<close>

theorem addItem_quantity_at_least_one:
  "(n \<noteq> NaN \<longrightarrow> jle (Fin 1) (qty (last (items (cart (addItem p (Some n) w))))))
   \<and> (jless n (Fin 1) \<longrightarrow> qty (last (items (cart (addItem p (Some n) w)))) = Fin 1)
   \<and> (jle (Fin 1) n \<longrightarrow> qty (last (items (cart (addItem p (Some n) w)))) = n)
   \<and> (Number_isInteger n \<longrightarrow>
        Number_isInteger (qty (last (items (cart (addItem p (Some n) w))))))
   \<and> qty (last (items (cart (addItem p (Some (Fin 0)) w)))) = Fin 1
   \<and> qty (last (items (cart (addItem p (Some (Fin (- 5))) w)))) = Fin 1
   \<and> qty (last (items (cart (addItem p None w)))) = Fin 1"
  by (simp add: stored_qty Number_js_def default_arg_def Math_max_ge Math_max_below
        Math_max_above Math_max_integer)
     (simp add: Math_max_def)

theorem addItem_quantity_at_least_one_witness:
  "Fin 3 \<noteq> NaN \<and> jle (Fin 1) (Fin 3) \<and> Number_isInteger (Fin 3)
   \<and> qty (last (items (cart (addItem (plain_product (Fin 10)) (Some (Fin 3)) (init_world True)))))
       = Fin 3
   \<and> jless (Fin (1 / 2)) (Fin 1)
   \<and> qty (last (items (cart (addItem (plain_product (Fin 10)) (Some (Fin (1 / 2)))
        (init_world True))))) = Fin 1"
  using addItem_quantity_at_least_one [of "Fin 3" "plain_product (Fin 10)" "init_world True"]
    addItem_quantity_at_least_one [of "Fin (1 / 2)" "plain_product (Fin 10)" "init_world True"]
  by (simp add: jle_def Number_isInteger_def)

text \<open>
  C6 as stated fails: the quantity 2.5 is stored as 2.5, which is not an integer, by
  \<open>addItem\<close> called directly and by the add-to-cart handler; and the quantity \<open>NaN\<close> is
  stored as \<open>NaN\<close>, which is not at least 1.
\<close>

theorem addItem_fractional_quantity_counterexample:
  "qty (last (items (cart (addItem (plain_product (Fin 10)) (Some (Fin (5 / 2))) (init_world True)))))
     = Fin (5 / 2)
   \<and> \<not> Number_isInteger (Fin (5 / 2))
   \<and> items (cart (snd (add_to_cart_click ''omep20'' (Fin 0) None (Fin (5 / 2)) (init_world True))))
       = [\<lparr>product = Product (CATALOG ! 3), qty = Fin (5 / 2)\<rparr>]
   \<and> qty (last (items (cart (addItem (plain_product (Fin 10)) (Some NaN) (init_world True))))) = NaN
   \<and> \<not> jle (Fin 1) NaN"
  by (simp add: stored_qty Number_js_def default_arg_def Math_max_def not_integer_5_2 jle_def
        click_fraction)

section \<open>Observers\<close>

lemma events_addItem:
  "events (addItem p q w) =
     events w @ map (\<lambda>ob. Update ob (cart (addItem p q w))) (filter has_update (observers (cart w)))"
  by (simp add: addItem_def Let_def notify_def)

lemma events_removeItem:
  "events (removeItem i w) =
     events w @ map (\<lambda>ob. Update ob (cart (removeItem i w))) (filter has_update (observers (cart w)))"
  by (simp add: removeItem_def notify_def)

lemma events_clear:
  "events (clear w) =
     events w @ map (\<lambda>ob. Update ob (cart (clear w))) (filter has_update (observers (cart w)))"
  by (simp add: clear_def notify_def)

lemma count_updates:
  "length (filter (\<lambda>e. update_target e = Some ob) (map (\<lambda>x. Update x c) (filter has_update obs)))
     = (if has_update ob then count_list obs ob else 0)"
  by (induction obs) auto

text \<open>
  C8.  Each of \<open>addItem\<close>, \<open>removeItem\<close> and \<open>clear\<close> returns with the events it found
  followed by one call of \<^verbatim>\<open>update\<close> for every registration of an observer that has the
  method, in the order of registration, each call receiving the cart as the operation
  left it.  So an observer with the method is called once per registration.
\<close>

theorem mutation_notifies_observers_in_order:
  "events (addItem p q w) =
     events w @ map (\<lambda>ob. Update ob (cart (addItem p q w))) (filter has_update (observers (cart w)))
   \<and> events (removeItem i w) =
     events w @ map (\<lambda>ob. Update ob (cart (removeItem i w))) (filter has_update (observers (cart w)))
   \<and> events (clear w) =
     events w @ map (\<lambda>ob. Update ob (cart (clear w))) (filter has_update (observers (cart w)))
   \<and> length (filter (\<lambda>e. update_target e = Some ob)
        (drop (length (events w)) (events (addItem p q w))))
       = (if has_update ob then count_list (observers (cart w)) ob else 0)
   \<and> length (filter (\<lambda>e. update_target e = Some ob)
        (drop (length (events w)) (events (removeItem i w))))
       = (if has_update ob then count_list (observers (cart w)) ob else 0)
   \<and> length (filter (\<lambda>e. update_target e = Some ob)
        (drop (length (events w)) (events (clear w))))
       = (if has_update ob then count_list (observers (cart w)) ob else 0)"
proof (intro conjI)
  show "length (filter (\<lambda>e. update_target e = Some ob)
        (drop (length (events w)) (events (addItem p q w))))
       = (if has_update ob then count_list (observers (cart w)) ob else 0)"
    by (subst events_addItem) (simp only: append_eq_conv_conj drop_all append_Nil
        drop_append length_drop diff_self_eq_0 drop_0 order_refl count_updates)
  show "length (filter (\<lambda>e. update_target e = Some ob)
        (drop (length (events w)) (events (removeItem i w))))
       = (if has_update ob then count_list (observers (cart w)) ob else 0)"
    by (subst events_removeItem) (simp only: append_eq_conv_conj drop_all append_Nil
        drop_append length_drop diff_self_eq_0 drop_0 order_refl count_updates)
  show "length (filter (\<lambda>e. update_target e = Some ob)
        (drop (length (events w)) (events (clear w))))
       = (if has_update ob then count_list (observers (cart w)) ob else 0)"
    by (subst events_clear) (simp only: append_eq_conv_conj drop_all append_Nil
        drop_append length_drop diff_self_eq_0 drop_0 order_refl count_updates)
qed (rule events_addItem events_removeItem events_clear)+

text \<open>
  C10.  \<open>addItem\<close> called directly always appends the line and notifies the observers,
  whatever the product and whatever the state of the gate: the result does not depend on
  the flag, which it leaves as it is.  Only the add-to-cart handler consults the gate.
\<close>

theorem addItem_without_gate:
  "cart (addItem p q w) =
     (cart w)\<lparr>items := items (cart w) @
        [\<lparr>product = p, qty = Math_max (Fin 1) (Number_js (default_arg (Fin 1) q))\<rparr>]\<rparr>
   \<and> events (addItem p q w) =
     events w @ map (\<lambda>ob. Update ob (cart (addItem p q w))) (filter has_update (observers (cart w)))
   \<and> verified (addItem p q w) = verified w
   \<and> addItem p q (w\<lparr>verified := b\<rparr>) = (addItem p q w)\<lparr>verified := b\<rparr>"
  by (simp add: addItem_def Let_def notify_def)

lemma removed_stays_out:
  "ob \<notin> set (observers (cart w)) \<Longrightarrow> a \<noteq> AddObserver ob \<Longrightarrow>
     ob \<notin> set (observers (cart (step w a)))"
  by (cases a)
     (auto simp: addObserver_def removeObserver_def verify_def add_to_cart_click_def
        remove_click_def rx_verify_click_def checkout_click_def Let_def
        split: sum.splits option.splits)

lemma no_update_map:
  "ob \<notin> set obs \<Longrightarrow>
     filter (\<lambda>e. update_target e = Some ob) (map (\<lambda>x. Update x c) (filter has_update obs)) = []"
  by (induction obs) auto

lemma no_update_notify:
  "ob \<notin> set (observers (cart w)) \<Longrightarrow>
     filter (\<lambda>e. update_target e = Some ob) (events (notify w))
       = filter (\<lambda>e. update_target e = Some ob) (events w)"
  by (simp add: notify_def no_update_map)

lemma removed_gets_nothing_step:
  "ob \<notin> set (observers (cart w)) \<Longrightarrow>
     filter (\<lambda>e. update_target e = Some ob) (events (step w a))
       = filter (\<lambda>e. update_target e = Some ob) (events w)"
  by (cases a)
     (auto simp: addObserver_def removeObserver_def verify_def add_to_cart_click_def
        remove_click_def rx_verify_click_def checkout_click_def Let_def
        addItem_def removeItem_def clear_def no_update_notify
        split: sum.splits option.splits)

lemma removed_gets_nothing_run:
  "ob \<notin> set (observers (cart w)) \<Longrightarrow> AddObserver ob \<notin> set acts \<Longrightarrow>
     filter (\<lambda>e. update_target e = Some ob) (events (run acts w))
       = filter (\<lambda>e. update_target e = Some ob) (events w)"
  unfolding run_def
proof (induction acts arbitrary: w)
  case Nil
  then show ?case by simp
next
  case (Cons a acts)
  from Cons.prems have "a \<noteq> AddObserver ob" by auto
  with Cons.prems(1) have out: "ob \<notin> set (observers (cart (step w a)))"
    by (rule removed_stays_out)
  from Cons.prems have rest: "AddObserver ob \<notin> set acts" by simp
  from Cons.IH [OF out rest] removed_gets_nothing_step [OF Cons.prems(1)]
  show ?case by simp
qed

text \<open>
  C9.  \<open>addObserver\<close> appends the observer to the registry, also when it is there already.
  \<open>removeObserver\<close> keeps exactly the registrations of the other observers, so none of the
  removed observer is left, however often it was registered; from then on, as long as it
  is not registered again, no operation calls it.
\<close>

theorem observer_registry:
  "observers (cart (addObserver ob w)) = observers (cart w) @ [ob]
   \<and> count_list (observers (cart (addObserver ob w))) ob = Suc (count_list (observers (cart w)) ob)
   \<and> observers (cart (removeObserver ob w)) = filter (\<lambda>x. x \<noteq> ob) (observers (cart w))
   \<and> count_list (observers (cart (removeObserver ob w))) ob = 0
   \<and> (AddObserver ob \<notin> set acts \<longrightarrow>
        filter (\<lambda>e. update_target e = Some ob) (events (run acts (removeObserver ob w)))
          = filter (\<lambda>e. update_target e = Some ob) (events w))"
proof -
  have gone: "ob \<notin> set (observers (cart (removeObserver ob w)))"
    by (simp add: removeObserver_def)
  have same: "events (removeObserver ob w) = events w"
    by (simp add: removeObserver_def)
  have "count_list (observers (cart (removeObserver ob w))) ob = 0"
    using gone by (simp add: count_list_0_iff)
  moreover have "AddObserver ob \<notin> set acts \<Longrightarrow>
        filter (\<lambda>e. update_target e = Some ob) (events (run acts (removeObserver ob w)))
          = filter (\<lambda>e. update_target e = Some ob) (events w)"
    using removed_gets_nothing_run [OF gone] same by simp
  ultimately show ?thesis
    by (simp add: addObserver_def removeObserver_def)
qed

theorem observer_registry_witness:
  "count_list (observers (cart (addObserver totalDisplay (init_world True)))) totalDisplay = 2
   \<and> observers (cart (removeObserver totalDisplay (addObserver totalDisplay (init_world True)))) = []
   \<and> AddObserver totalDisplay \<notin> set [AddItem (plain_product (Fin 50)) (Some (Fin 2)), Clear, Notify]
   \<and> filter (\<lambda>e. update_target e = Some totalDisplay)
        (events (run [AddItem (plain_product (Fin 50)) (Some (Fin 2)), Clear, Notify]
           (removeObserver totalDisplay (addObserver totalDisplay (init_world True)))))
      = filter (\<lambda>e. update_target e = Some totalDisplay)
          (events (addObserver totalDisplay (init_world True)))"
  using observer_registry [of totalDisplay "init_world True"]
    observer_registry [of totalDisplay "addObserver totalDisplay (init_world True)"
      "[AddItem (plain_product (Fin 50)) (Some (Fin 2)), Clear, Notify]"]
  by (simp add: init_world_def addObserver_def new_CartSubject_def)

section \<open>Further properties\<close>

lemma catalog_cases:
  "e \<in> set CATALOG \<Longrightarrow>
     e = CATALOG ! 0 \<or> e = CATALOG ! 1 \<or> e = CATALOG ! 2 \<or> e = CATALOG ! 3"
  by (simp add: CATALOG_def)

lemma createProduct_nth:
  "createProduct (pid (CATALOG ! 0)) = Inr (Product (CATALOG ! 0))"
  "createProduct (pid (CATALOG ! 1)) = Inr (Product (CATALOG ! 1))"
  "createProduct (pid (CATALOG ! 2)) = Inr (Product (CATALOG ! 2))"
  "createProduct (pid (CATALOG ! 3)) = Inr (Product (CATALOG ! 3))"
  by (simp_all add: createProduct_def CATALOG_def new_Product_def)

lemma find_unknown:
  "productId \<notin> pid ` set CATALOG \<Longrightarrow> find (\<lambda>p. pid p = productId) CATALOG = None"
  unfolding find_None_iff by blast

lemma nonexistent_unknown: "''nonexistent'' \<notin> pid ` set CATALOG"
  by (simp add: CATALOG_def)

lemma omep_in_catalog: "CATALOG ! 3 \<in> set CATALOG"
  by (simp add: CATALOG_def)

text \<open>
  For the id of every catalog entry \<open>createProduct\<close> returns a product with the fields
  of that entry, whose price is the entry's base price exactly; for an id that is not in
  the catalog it throws.
\<close>

theorem createProduct_catalog:
  "(e \<in> set CATALOG \<longrightarrow>
      createProduct (pid e) = Inr (Product e) \<and> getPrice (Product e) = basePrice e)
   \<and> (productId \<notin> pid ` set CATALOG \<longrightarrow>
      createProduct productId = Inl (UnknownProductId productId))"
proof (intro conjI impI)
  assume "e \<in> set CATALOG"
  then show "createProduct (pid e) = Inr (Product e)"
    using createProduct_nth by (auto dest!: catalog_cases)
  show "getPrice (Product e) = basePrice e" by simp
next
  assume "productId \<notin> pid ` set CATALOG"
  then show "createProduct productId = Inl (UnknownProductId productId)"
    by (simp add: createProduct_def find_unknown)
qed

theorem createProduct_catalog_witness:
  "CATALOG ! 3 \<in> set CATALOG
   \<and> createProduct (pid (CATALOG ! 3)) = Inr (Product (CATALOG ! 3))
   \<and> ''nonexistent'' \<notin> pid ` set CATALOG
   \<and> createProduct ''nonexistent'' = Inl (UnknownProductId ''nonexistent'')"
  using createProduct_catalog [of "CATALOG ! 3" "''nonexistent''"] nonexistent_unknown
    omep_in_catalog
  by blast

text \<open>
  The total of an empty cart is 0; the total of two lines of price 10 and 20 with
  quantities 2 and 1 is 40; and appending a line adds its price times its quantity to the
  total.
\<close>

theorem getTotal_sums_lines:
  "getTotal new_CartSubject = Fin 0
   \<and> items (cart two_lines) =
       [\<lparr>product = plain_product (Fin 10), qty = Fin 2\<rparr>,
        \<lparr>product = plain_product (Fin 20), qty = Fin 1\<rparr>]
   \<and> getTotal (cart two_lines) = Fin 40
   \<and> getTotal (c\<lparr>items := items c @ [l]\<rparr>)
       = jadd (getTotal c) (jmul (getPrice (product l)) (qty l))"
proof (intro conjI)
  show "getTotal new_CartSubject = Fin 0"
    by (simp add: getTotal_def new_CartSubject_def)
  show "getTotal (c\<lparr>items := items c @ [l]\<rparr>)
       = jadd (getTotal c) (jmul (getPrice (product l)) (qty l))"
    by (simp add: getTotal_def)
qed (rule items_two_lines getTotal_two_lines)+

text \<open>
  Checkout does nothing on an empty cart; otherwise it reports the total, empties the
  cart, notifies the observers and disables the button.
\<close>

theorem checkout_clears:
  "(items (cart w) = [] \<longrightarrow> checkout_click w = w)
   \<and> (items (cart w) \<noteq> [] \<longrightarrow>
        items (cart (checkout_click w)) = []
        \<and> checkoutDisabled (checkout_click w)
        \<and> events (checkout_click w)
            = events w @ Alert (ThankYou (getTotal (cart w)))
              # map (\<lambda>ob. Update ob (cart (checkout_click w)))
                  (filter has_update (observers (cart w))))"
  by (simp add: checkout_click_def clear_def notify_def Let_def)

theorem checkout_clears_witness:
  "items (cart two_lines) \<noteq> []
   \<and> items (cart (checkout_click two_lines)) = []
   \<and> checkoutDisabled (checkout_click two_lines)
   \<and> items (cart (init_world True)) = []
   \<and> checkout_click (init_world True) = init_world True"
proof -
  have e: "items (cart (init_world True)) = []"
    by (simp add: init_world_def addObserver_def new_CartSubject_def)
  have n: "items (cart two_lines) \<noteq> []"
    by (simp add: items_two_lines)
  from checkout_clears [of two_lines] checkout_clears [of "init_world True"] e n
  show ?thesis by blast
qed

text \<open>
  The cart does not merge lines: adding the same product twice gives two lines.
\<close>

theorem addItem_no_dedup:
  "items (cart (addItem p q (addItem p q w)))
     = items (cart w) @
       [\<lparr>product = p, qty = Math_max (Fin 1) (Number_js (default_arg (Fin 1) q))\<rparr>,
        \<lparr>product = p, qty = Math_max (Fin 1) (Number_js (default_arg (Fin 1) q))\<rparr>]"
  by (simp add: addItem_def Let_def)

end
